theory Spec2Isabelle
  imports Main "HOL-Library.Word" "HOL-Library.Sublist" "HOL-Library.AList"
begin

section \<open>Data model\<close>

text \<open>
  The development embeds \<^verbatim>\<open>aws/s3/upload.py\<close>: the class \<^verbatim>\<open>ObjectWrapper\<close>, a facade over
  one object of a remote object store. Python values are modelled as follows: \<^verbatim>\<open>bytes\<close> as a
  list of 8-bit words, \<^verbatim>\<open>str\<close> as \<open>string\<close>, a dict of strings as an association list, an
  exception as a value of \<open>exn\<close>. Every operation takes the state of the world (the remote
  store, the local files, the log) and returns its outcome together with the new state,
  also when it raises.
\<close>

type_synonym bytes = "8 word list"

type_synonym pydict = "(string \<times> string) list"

text \<open>
  The exception classes that occur: \<^verbatim>\<open>botocore.exceptions.ClientError\<close> with its error code;
  \<^verbatim>\<open>IOError\<close>, raised by \<^verbatim>\<open>open\<close>; \<^verbatim>\<open>KeyError\<close>, raised by a dict subscript; and
  \<^verbatim>\<open>WaiterError\<close>, raised by a waiter that gives up. Only the first is a \<^verbatim>\<open>ClientError\<close>.
\<close>

datatype exn = ClientError string | IOError string | KeyError string | WaiterError string

text \<open>One entry of an access policy: \<^verbatim>\<open>{'Grantee': {...}, 'Permission': ...}\<close>.\<close>

record grant =
  Grantee :: pydict
  Permission :: string

text \<open>
  The data of an \<^verbatim>\<open>ObjectAcl\<close> resource once loaded: \<^verbatim>\<open>acl.grants\<close> (which may be \<^verbatim>\<open>None\<close>)
  and \<^verbatim>\<open>acl.owner\<close>.
\<close>

record acl_policy =
  Grants :: "grant list option"
  Owner :: pydict

text \<open>What the remote service stores under one (bucket, key).\<close>

record s3_data =
  Body :: bytes
  Acl :: acl_policy

text \<open>The identifiers of a \<^verbatim>\<open>s3.Object\<close> resource and of a \<^verbatim>\<open>s3.Bucket\<close> resource.\<close>

record s3_object =
  bucket_name :: string
  key :: string

record s3_bucket =
  name :: string

text \<open>The argument of \<^verbatim>\<open>put\<close>: \<^verbatim>\<open>bytes\<close>, or a \<^verbatim>\<open>str\<close> that names a local file.\<close>

datatype put_arg = Bytes bytes | Str string

text \<open>
  The value bound to \<^verbatim>\<open>put_data\<close>: the bytes themselves, or the file object returned by
  \<^verbatim>\<open>open(data, 'rb')\<close>, with its descriptor and the content it reads.
\<close>

datatype put_data = RawBytes bytes | FileObj nat bytes

text \<open>Log records: \<^verbatim>\<open>logger.info\<close> and \<^verbatim>\<open>logger.exception\<close> (which attaches the active exception).\<close>

datatype log_arg = S string | L "string list"

datatype log_record =
  LogInfo string "log_arg list"
| LogException string "log_arg list" exn

text \<open>The requests that the facade sends to the remote storage client.\<close>

datatype call =
  ObjectPut string string bytes string
| WaitUntilExists string string
| ObjectGet string string
| ObjectsAll string
| ObjectsFilter string string
| CopyFrom string string string string
| AclLoad string string
| AclPut string string "grant list" pydict

text \<open>
  The world: the remote store (an association list, in the order in which the service
  lists it), the identity that owns what the caller creates, the outcomes that the service
  will give to the coming requests (\<open>Some e\<close>: the request raises \<open>e\<close>; \<open>None\<close> or no
  entry: it is served), the requests sent so far, the log, the local files that can be opened
  for reading, and the file descriptors.
\<close>

record world =
  store :: "((string \<times> string) \<times> s3_data) list"
  account :: pydict
  faults :: "exn option list"
  calls :: "call list"
  logs :: "log_record list"
  fs :: "string \<rightharpoonup> bytes"
  next_fd :: nat
  open_fds :: "nat list"

type_synonym 'a result = "(exn + 'a) \<times> world"

section \<open>The environment: logger, local files, remote storage client\<close>

definition logger_info :: "string \<Rightarrow> log_arg list \<Rightarrow> world \<Rightarrow> world" where
  "logger_info fmt args w = w\<lparr>logs := logs w @ [LogInfo fmt args]\<rparr>"

definition logger_exception :: "string \<Rightarrow> log_arg list \<Rightarrow> exn \<Rightarrow> world \<Rightarrow> world" where
  "logger_exception fmt args e w = w\<lparr>logs := logs w @ [LogException fmt args e]\<rparr>"

text \<open>\<^verbatim>\<open>open(path, 'rb')\<close>: raises \<^verbatim>\<open>IOError\<close> when the file cannot be opened.\<close>

definition py_open :: "string \<Rightarrow> world \<Rightarrow> put_data result" where
  "py_open path w =
     (case fs w path of
        None \<Rightarrow> (Inl (IOError path), w)
      | Some content \<Rightarrow>
          (Inr (FileObj (next_fd w) content),
           w\<lparr>next_fd := Suc (next_fd w), open_fds := next_fd w # open_fds w\<rparr>))"

definition file_close :: "nat \<Rightarrow> world \<Rightarrow> world" where
  "file_close fd w = w\<lparr>open_fds := removeAll fd (open_fds w)\<rparr>"

definition read_all :: "put_data \<Rightarrow> bytes" where
  "read_all d = (case d of RawBytes b \<Rightarrow> b | FileObj fd content \<Rightarrow> content)"

text \<open>
  Modelled from the spec: the remote storage service and its client library are not part
  of the repository. The model is the service as section 6 of the specification assumes it:
  a put stores the bytes with the canned access policy, a get returns the stored bytes, the
  existence poll succeeds once the object is there, a listing with a prefix returns the
  objects whose key starts with it, a copy is made by the service, and a put of an access
  policy replaces the whole policy. Any request may fail: it then raises the exception that
  \<open>faults\<close> holds for it and changes nothing in the store.
\<close>

definition request :: "call \<Rightarrow> world \<Rightarrow> exn option \<times> world" where
  "request c w =
     (case faults w of
        [] \<Rightarrow> (None, w\<lparr>calls := calls w @ [c]\<rparr>)
      | f # rest \<Rightarrow> (f, w\<lparr>faults := rest, calls := calls w @ [c]\<rparr>))"

definition owner_grant :: "pydict \<Rightarrow> grant" where
  "owner_grant ow =
     \<lparr>Grantee = (''Type'', ''CanonicalUser'') # ow, Permission = ''FULL_CONTROL''\<rparr>"

definition all_users_read :: grant where
  "all_users_read =
     \<lparr>Grantee = [(''Type'', ''Group''),
                  (''URI'', ''http://acs.amazonaws.com/groups/global/AllUsers'')],
      Permission = ''READ''\<rparr>"

definition canned_acl :: "string \<Rightarrow> pydict \<Rightarrow> acl_policy" where
  "canned_acl acl ow =
     (if acl = ''public-read''
      then \<lparr>Grants = Some [owner_grant ow, all_users_read], Owner = ow\<rparr>
      else \<lparr>Grants = Some [owner_grant ow], Owner = ow\<rparr>)"

definition ident :: "s3_object \<Rightarrow> string \<times> string" where
  "ident ob = (bucket_name ob, key ob)"

definition object_put :: "s3_object \<Rightarrow> put_data \<Rightarrow> string \<Rightarrow> world \<Rightarrow> unit result" where
  "object_put ob d acl w =
     (case request (ObjectPut (bucket_name ob) (key ob) (read_all d) acl) w of
        (Some e, w1) \<Rightarrow> (Inl e, w1)
      | (None, w1) \<Rightarrow>
          (Inr (),
           w1\<lparr>store := AList.update (ident ob)
                 \<lparr>Body = read_all d, Acl = canned_acl acl (account w1)\<rparr> (store w1)\<rparr>))"

definition object_wait_until_exists :: "s3_object \<Rightarrow> world \<Rightarrow> unit result" where
  "object_wait_until_exists ob w =
     (case request (WaitUntilExists (bucket_name ob) (key ob)) w of
        (Some e, w1) \<Rightarrow> (Inl e, w1)
      | (None, w1) \<Rightarrow>
          (case map_of (store w1) (ident ob) of
             None \<Rightarrow> (Inl (WaiterError ''ObjectExists''), w1)
           | Some d \<Rightarrow> (Inr (), w1)))"

definition object_get :: "s3_object \<Rightarrow> world \<Rightarrow> bytes result" where
  "object_get ob w =
     (case request (ObjectGet (bucket_name ob) (key ob)) w of
        (Some e, w1) \<Rightarrow> (Inl e, w1)
      | (None, w1) \<Rightarrow>
          (case map_of (store w1) (ident ob) of
             None \<Rightarrow> (Inl (ClientError ''NoSuchKey''), w1)
           | Some d \<Rightarrow> (Inr (Body d), w1)))"

definition bucket_objects :: "world \<Rightarrow> string \<Rightarrow> s3_object list" where
  "bucket_objects w b =
     map (\<lambda>(i, d). \<lparr>bucket_name = fst i, key = snd i\<rparr>)
       (filter (\<lambda>(i, d). fst i = b) (store w))"

definition objects_all :: "s3_bucket \<Rightarrow> world \<Rightarrow> s3_object list result" where
  "objects_all bucket w =
     (case request (ObjectsAll (name bucket)) w of
        (Some e, w1) \<Rightarrow> (Inl e, w1)
      | (None, w1) \<Rightarrow> (Inr (bucket_objects w1 (name bucket)), w1))"

definition objects_filter :: "s3_bucket \<Rightarrow> string \<Rightarrow> world \<Rightarrow> s3_object list result" where
  "objects_filter bucket p w =
     (case request (ObjectsFilter (name bucket) p) w of
        (Some e, w1) \<Rightarrow> (Inl e, w1)
      | (None, w1) \<Rightarrow>
          (Inr (filter (\<lambda>ob. prefix p (key ob)) (bucket_objects w1 (name bucket))), w1))"

definition object_copy_from :: "s3_object \<Rightarrow> string \<Rightarrow> string \<Rightarrow> world \<Rightarrow> unit result" where
  "object_copy_from dest src_bucket src_key w =
     (case request (CopyFrom (bucket_name dest) (key dest) src_bucket src_key) w of
        (Some e, w1) \<Rightarrow> (Inl e, w1)
      | (None, w1) \<Rightarrow>
          (case map_of (store w1) (src_bucket, src_key) of
             None \<Rightarrow> (Inl (ClientError ''NoSuchKey''), w1)
           | Some d \<Rightarrow>
               (Inr (),
                w1\<lparr>store := AList.update (ident dest)
                      \<lparr>Body = Body d, Acl = canned_acl ''private'' (account w1)\<rparr>
                      (store w1)\<rparr>)))"

definition acl_load :: "s3_object \<Rightarrow> world \<Rightarrow> acl_policy result" where
  "acl_load ob w =
     (case request (AclLoad (bucket_name ob) (key ob)) w of
        (Some e, w1) \<Rightarrow> (Inl e, w1)
      | (None, w1) \<Rightarrow>
          (case map_of (store w1) (ident ob) of
             None \<Rightarrow> (Inl (ClientError ''NoSuchKey''), w1)
           | Some d \<Rightarrow> (Inr (Acl d), w1)))"

definition acl_put :: "s3_object \<Rightarrow> grant list \<Rightarrow> pydict \<Rightarrow> world \<Rightarrow> unit result" where
  "acl_put ob gs ow w =
     (case request (AclPut (bucket_name ob) (key ob) gs ow) w of
        (Some e, w1) \<Rightarrow> (Inl e, w1)
      | (None, w1) \<Rightarrow>
          (case map_of (store w1) (ident ob) of
             None \<Rightarrow> (Inl (ClientError ''NoSuchKey''), w1)
           | Some d \<Rightarrow>
               (Inr (),
                w1\<lparr>store := AList.update (ident ob)
                      (d\<lparr>Acl := \<lparr>Grants = Some gs, Owner = ow\<rparr>\<rparr>) (store w1)\<rparr>)))"

section \<open>Control flow of the facade\<close>

text \<open>Sequencing: a statement that raises ends the block.\<close>

definition and_then :: "'a result \<Rightarrow> ('a \<Rightarrow> world \<Rightarrow> 'b result) \<Rightarrow> 'b result" where
  "and_then r f = (case r of (Inl e, w) \<Rightarrow> (Inl e, w) | (Inr x, w) \<Rightarrow> f x w)"

text \<open>\<^verbatim>\<open>except ClientError: <handler>; raise\<close>: every other exception passes by the handler.\<close>

definition except_ClientError :: "'a result \<Rightarrow> (exn \<Rightarrow> world \<Rightarrow> world) \<Rightarrow> 'a result" where
  "except_ClientError r handler =
     (case r of
        (Inl (ClientError c), w) \<Rightarrow> (Inl (ClientError c), handler (ClientError c) w)
      | (Inl e, w) \<Rightarrow> (Inl e, w)
      | (Inr x, w) \<Rightarrow> (Inr x, w))"

text \<open>\<^verbatim>\<open>except IOError: <handler>; raise\<close>.\<close>

definition except_IOError :: "'a result \<Rightarrow> (exn \<Rightarrow> world \<Rightarrow> world) \<Rightarrow> 'a result" where
  "except_IOError r handler =
     (case r of
        (Inl (IOError m), w) \<Rightarrow> (Inl (IOError m), handler (IOError m) w)
      | (Inl e, w) \<Rightarrow> (Inl e, w)
      | (Inr x, w) \<Rightarrow> (Inr x, w))"

text \<open>\<^verbatim>\<open>finally: <cleanup>\<close>: runs on every exit of the block.\<close>

definition try_finally :: "'a result \<Rightarrow> (world \<Rightarrow> world) \<Rightarrow> 'a result" where
  "try_finally r cleanup = (fst r, cleanup (snd r))"

section \<open>The facade: ObjectWrapper\<close>

text \<open>\<^verbatim>\<open>ObjectWrapper.__init__\<close> (lines 9 to 11): the wrapper keeps the object and its key.\<close>

record ObjectWrapper =
  object :: s3_object
  wkey :: string

definition init :: "s3_object \<Rightarrow> ObjectWrapper" where
  "init s3_obj = \<lparr>object = s3_obj, wkey = key s3_obj\<rparr>"

text \<open>\<^verbatim>\<open>if getattr(put_data, 'close', None): put_data.close()\<close>: bytes have no \<^verbatim>\<open>close\<close>.\<close>

definition close_if_closable :: "put_data \<Rightarrow> world \<Rightarrow> world" where
  "close_if_closable d w = (case d of RawBytes b \<Rightarrow> w | FileObj fd content \<Rightarrow> file_close fd w)"

text \<open>The first statements of \<^verbatim>\<open>put\<close>: a \<^verbatim>\<open>str\<close> is opened as a file, bytes are taken as they are.\<close>

definition open_put_data :: "put_arg \<Rightarrow> world \<Rightarrow> put_data result" where
  "open_put_data data w =
     (case data of
        Str path \<Rightarrow>
          except_IOError (py_open path w)
            (logger_exception ''Expected file name or binary data, got '%s'.'' [S path])
      | Bytes b \<Rightarrow> (Inr (RawBytes b), w))"

text \<open>The \<^verbatim>\<open>try\<close> statement of \<^verbatim>\<open>put\<close>, with its \<^verbatim>\<open>except\<close> and \<^verbatim>\<open>finally\<close> clauses.\<close>

definition upload :: "ObjectWrapper \<Rightarrow> put_data \<Rightarrow> world \<Rightarrow> unit result" where
  "upload self put_data w0 =
     try_finally
       (except_ClientError
          (and_then (object_put (object self) put_data ''public-read'' w0) (\<lambda>_ w1.
           and_then (object_wait_until_exists (object self) w1) (\<lambda>_ w2.
           (Inr (),
            logger_info ''Put object '%s' to bucket '%s'.''
              [S (key (object self)), S (bucket_name (object self))] w2))))
          (logger_exception ''Couldn't put object '%s' to bucket '%s'.''
             [S (key (object self)), S (bucket_name (object self))]))
       (close_if_closable put_data)"

text \<open>\<^verbatim>\<open>ObjectWrapper.put\<close> (lines 13 to 42): the two parts in sequence.\<close>

definition put :: "ObjectWrapper \<Rightarrow> put_arg \<Rightarrow> world \<Rightarrow> unit result" where
  "put self data w = and_then (open_put_data data w) (upload self)"

text \<open>\<^verbatim>\<open>ObjectWrapper.get\<close> (lines 44 to 61).\<close>

definition get :: "ObjectWrapper \<Rightarrow> world \<Rightarrow> bytes result" where
  "get self w =
     except_ClientError
       (and_then (object_get (object self) w) (\<lambda>body w1.
        (Inr body,
         logger_info ''Got object '%s' from bucket '%s'.''
           [S (key (object self)), S (bucket_name (object self))] w1)))
       (logger_exception ''Couldn't get object '%s' from bucket '%s'.''
          [S (key (object self)), S (bucket_name (object self))])"

text \<open>\<^verbatim>\<open>if not prefix\<close>: \<^verbatim>\<open>None\<close> and the empty string are both falsy.\<close>

text \<open>\<^verbatim>\<open>ObjectWrapper.list\<close> (lines 63 to 83), a static method.\<close>

definition list :: "s3_bucket \<Rightarrow> string option \<Rightarrow> world \<Rightarrow> s3_object list result" where
  "list bucket prefix_arg w =
     except_ClientError
       (and_then
          (case prefix_arg of
             None \<Rightarrow> objects_all bucket w
           | Some p \<Rightarrow> if p = [] then objects_all bucket w else objects_filter bucket p w)
          (\<lambda>objects w1.
             (Inr objects,
              logger_info (''Got objects %s from bucket '%s'' @ [CHR 0x27])
                [L (map key objects), S (name bucket)] w1)))
       (logger_exception ''Couldn't get objects for bucket '%s'.'' [S (name bucket)])"

text \<open>
  \<^verbatim>\<open>ObjectWrapper.copy\<close> (lines 85 to 106): the destination copies from the bucket and key of this
  object, then its existence is polled.
\<close>

definition copy :: "ObjectWrapper \<Rightarrow> s3_object \<Rightarrow> world \<Rightarrow> unit result" where
  "copy self dest_object w =
     except_ClientError
       (and_then
          (object_copy_from dest_object (bucket_name (object self)) (key (object self)) w)
          (\<lambda>_ w1.
        and_then (object_wait_until_exists dest_object w1) (\<lambda>_ w2.
        (Inr (),
         logger_info ''Copied object from %s:%s to %s:%s.''
           [S (key (object self)), S (bucket_name (object self)),
            S (bucket_name dest_object), S (key dest_object)] w2))))
       (logger_exception ''Couldn't copy object from %s/%s to %s/%s.''
          [S (key (object self)), S (bucket_name (object self)),
           S (bucket_name dest_object), S (key dest_object)])"

text \<open>\<^verbatim>\<open>ObjectWrapper.put_acl\<close> (lines 108 to 136): the grant that is appended, and the method.\<close>

definition email_grant :: "string \<Rightarrow> grant" where
  "email_grant email =
     \<lparr>Grantee = [(''Type'', ''AmazonCustomerByEmail''), (''EmailAddress'', email)],
      Permission = ''READ''\<rparr>"

text \<open>\<^verbatim>\<open>acl.grants if acl.grants else []\<close>: \<^verbatim>\<open>None\<close> and the empty list are both falsy.\<close>

definition grants_or_empty :: "grant list option \<Rightarrow> grant list" where
  "grants_or_empty g = (case g of None \<Rightarrow> [] | Some gs \<Rightarrow> if gs = [] then [] else gs)"

definition put_acl :: "ObjectWrapper \<Rightarrow> string \<Rightarrow> world \<Rightarrow> unit result" where
  "put_acl self email w =
     except_ClientError
       (and_then (acl_load (object self) w) (\<lambda>acl w1.
        and_then
          (acl_put (object self) (grants_or_empty (Grants acl) @ [email_grant email])
             (Owner acl) w1)
          (\<lambda>_ w2. (Inr (), logger_info ''Granted read access to %s.'' [S email] w2))))
       (logger_exception ''Couldn't add ACL to object '%s'.'' [S (key (object self))])"

text \<open>\<^verbatim>\<open>acl.owner['DisplayName']\<close> raises \<^verbatim>\<open>KeyError\<close> when the owner has no such entry.\<close>

text \<open>\<^verbatim>\<open>ObjectWrapper.get_acl\<close> (lines 138 to 153).\<close>

definition get_acl :: "ObjectWrapper \<Rightarrow> world \<Rightarrow> acl_policy result" where
  "get_acl self w =
     except_ClientError
       (and_then (acl_load (object self) w) (\<lambda>acl w1.
          (case map_of (Owner acl) ''DisplayName'' of
             None \<Rightarrow> (Inl (KeyError ''DisplayName''), w1)
           | Some display_name \<Rightarrow>
               (Inr acl,
                logger_info ''Got ACL for object %s owned by %s.''
                  [S (key (object self)), S display_name] w1))))
       (logger_exception ''Couldn't get ACL for object %s.'' [S (key (object self))])"

section \<open>Vocabulary of the properties, and test fixtures\<close>

text \<open>The outcome that the service will give to the next request.\<close>

definition next_fault :: "world \<Rightarrow> exn option" where
  "next_fault w = (case faults w of [] \<Rightarrow> None | f # rest \<Rightarrow> f)"

text \<open>The bytes that an argument of \<^verbatim>\<open>put\<close> stands for, if any.\<close>

definition payload_bytes :: "put_arg \<Rightarrow> world \<Rightarrow> bytes option" where
  "payload_bytes data w = (case data of Bytes b \<Rightarrow> Some b | Str path \<Rightarrow> fs w path)"

text \<open>A world with nothing in it, served by a service that never fails.\<close>

definition empty_world :: world where
  "empty_world =
     \<lparr>store = [], account = [(''DisplayName'', ''fcerna''), (''ID'', ''75aa57f0'')],
      faults = [], calls = [], logs = [], fs = Map.empty, next_fd = 3, open_fds = []\<rparr>"

definition private_data :: "bytes \<Rightarrow> s3_data" where
  "private_data b = \<lparr>Body = b, Acl = canned_acl ''private'' (account empty_world)\<rparr>"

text \<open>The fixture of the listing: three keys in one bucket, and one key in another.\<close>

definition fixture_world :: world where
  "fixture_world =
     empty_world\<lparr>store :=
       [((''fixture'', ''js/a.js''), private_data [1]),
        ((''fixture'', ''img/b.png''), private_data [2]),
        ((''other'', ''js/z.js''), private_data [3]),
        ((''fixture'', ''js/c.js''), private_data [4])]\<rparr>"

definition fixture_bucket :: s3_bucket where
  "fixture_bucket = \<lparr>name = ''fixture''\<rparr>"

text \<open>The object of the demo driver, after its upload, and a local build artifact.\<close>

definition demo_object :: s3_object where
  "demo_object = \<lparr>bucket_name = ''evaluationroom.com'', key = ''js/index.js''\<rparr>"

definition demo_world :: world where
  "demo_world =
     empty_world\<lparr>store :=
       [((''evaluationroom.com'', ''js/index.js''),
         \<lparr>Body = [0x61, 0x62], Acl = canned_acl ''public-read'' (account empty_world)\<rparr>)],
       fs := [''build/js/index.js'' \<mapsto> [0x76, 0x61, 0x72]]\<rparr>"

definition access_denied :: exn where
  "access_denied = ClientError ''AccessDenied''"

definition demo_wrapper :: ObjectWrapper where
  "demo_wrapper = init demo_object"

definition demo_dest :: s3_object where
  "demo_dest = \<lparr>bucket_name = ''backup'', key = ''index.js''\<rparr>"

text \<open>The demo world with a service that refuses the next request, or the one after it.\<close>

definition failing_world :: world where
  "failing_world = demo_world\<lparr>faults := [Some access_denied]\<rparr>"

definition failing_later_world :: world where
  "failing_later_world = demo_world\<lparr>faults := [None, Some access_denied]\<rparr>"

text \<open>The demo world when the policy of the object comes back without grants.\<close>

definition bare_world :: world where
  "bare_world =
     demo_world\<lparr>store :=
       [((''evaluationroom.com'', ''js/index.js''),
         \<lparr>Body = [0x61, 0x62], Acl = \<lparr>Grants = None, Owner = account empty_world\<rparr>\<rparr>)]\<rparr>"

text \<open>The demo world when the existence poll that follows the next request gives up.\<close>

definition poll_failing_world :: world where
  "poll_failing_world = demo_world\<lparr>faults := [None, Some (WaiterError ''ObjectExists'')]\<rparr>"

text \<open>
  What the handlers \<^verbatim>\<open>except ClientError: logger.exception(...); raise\<close> do to the world when
  the exception \<open>e\<close> passes: one log record for a \<^verbatim>\<open>ClientError\<close>, nothing for another class.
\<close>

definition logged_if_ClientError :: "string \<Rightarrow> log_arg list \<Rightarrow> exn \<Rightarrow> world \<Rightarrow> world" where
  "logged_if_ClientError fmt args e w =
     (case e of ClientError c \<Rightarrow> logger_exception fmt args e w | _ \<Rightarrow> w)"

text \<open>
  The demo world when the owner that the service returns has an identifier and no display
  name, and an object with the key of the demo object in another bucket.
\<close>

definition nameless_owner_world :: world where
  "nameless_owner_world =
     demo_world\<lparr>store :=
       [((''evaluationroom.com'', ''js/index.js''),
         \<lparr>Body = [0x61, 0x62],
          Acl = \<lparr>Grants = Some [all_users_read], Owner = [(''ID'', ''75aa57f0'')]\<rparr>\<rparr>)]\<rparr>"

definition other_bucket_object :: s3_object where
  "other_bucket_object = \<lparr>bucket_name = ''other'', key = ''js/index.js''\<rparr>"

section \<open>Unfolding rules\<close>

lemma request_eq:
  "request c w = (next_fault w, w\<lparr>faults := tl (faults w), calls := calls w @ [c]\<rparr>)"
  by (simp add: request_def next_fault_def split: list.split)

lemmas env_defs = object_put_def object_wait_until_exists_def object_get_def objects_all_def
  objects_filter_def object_copy_from_def acl_load_def acl_put_def request_eq

lemmas ctl_defs = and_then_def except_ClientError_def except_IOError_def try_finally_def
  logger_info_def logger_exception_def

lemmas put_defs = put_def open_put_data_def upload_def py_open_def close_if_closable_def
  file_close_def read_all_def

lemmas fixture_defs = empty_world_def private_data_def fixture_world_def fixture_bucket_def
  demo_object_def demo_world_def access_denied_def demo_wrapper_def demo_dest_def
  failing_world_def failing_later_world_def bare_world_def poll_failing_world_def nameless_owner_world_def
  other_bucket_object_def init_def

lemmas model_defs = request_def owner_grant_def all_users_read_def canned_acl_def ident_def
  object_put_def object_wait_until_exists_def object_get_def bucket_objects_def objects_all_def
  objects_filter_def object_copy_from_def acl_load_def acl_put_def py_open_def file_close_def
  read_all_def

lemmas facade_defs = and_then_def except_ClientError_def except_IOError_def try_finally_def
  logger_info_def logger_exception_def close_if_closable_def open_put_data_def upload_def
  put_def get_def list_def copy_def email_grant_def grants_or_empty_def put_acl_def get_acl_def
  next_fault_def payload_bytes_def logged_if_ClientError_def

lemmas eval_defs = fixture_defs model_defs facade_defs

section \<open>Listing\<close>

text \<open>
  Claim C5. For every bucket and every prefix filter, \<^verbatim>\<open>list\<close> returns exactly the objects of
  the bucket whose key starts with the prefix, in the order of the service, and all the
  objects of the bucket when no filter is given; when the service refuses the request, the
  refusal is the outcome. \<^verbatim>\<open>list\<close> sends one request, the filtered listing for a prefix that
  is not empty and the whole listing otherwise, and returns what the service lists. For the
  fixture keys \<^verbatim>\<open>js/a.js\<close>, \<^verbatim>\<open>img/b.png\<close>, \<^verbatim>\<open>js/c.js\<close> and the prefix \<^verbatim>\<open>js/\<close> the result is
  \<^verbatim>\<open>js/a.js\<close>, \<^verbatim>\<open>js/c.js\<close>.
\<close>

theorem list_returns_prefix_matches:
  "fst (list bucket p w) =
     (case next_fault w of
        Some e \<Rightarrow> Inl e
      | None \<Rightarrow>
          Inr (filter (\<lambda>ob. prefix (case p of None \<Rightarrow> [] | Some q \<Rightarrow> q) (key ob))
                 (bucket_objects w (name bucket))))
   \<and> fst (list bucket None w) =
       (case next_fault w of Some e \<Rightarrow> Inl e | None \<Rightarrow> Inr (bucket_objects w (name bucket)))
   \<and> fst (list bucket p w) =
       fst (case p of
              None \<Rightarrow> objects_all bucket w
            | Some q \<Rightarrow> if q = [] then objects_all bucket w else objects_filter bucket q w)
   \<and> calls (snd (list bucket p w)) = calls w @
       [case p of
          None \<Rightarrow> ObjectsAll (name bucket)
        | Some q \<Rightarrow> if q = [] then ObjectsAll (name bucket) else ObjectsFilter (name bucket) q]
   \<and> fst (list fixture_bucket (Some ''js/'') fixture_world) =
       Inr [\<lparr>bucket_name = ''fixture'', key = ''js/a.js''\<rparr>,
            \<lparr>bucket_name = ''fixture'', key = ''js/c.js''\<rparr>]"
proof (intro conjI)
  show "fst (list bucket p w) =
       fst (case p of
              None \<Rightarrow> objects_all bucket w
            | Some q \<Rightarrow> if q = [] then objects_all bucket w else objects_filter bucket q w)"
    by (simp add: list_def and_then_def except_ClientError_def
          split: option.split prod.split sum.split exn.split)
  show "calls (snd (list bucket p w)) = calls w @
       [case p of
          None \<Rightarrow> ObjectsAll (name bucket)
        | Some q \<Rightarrow> if q = [] then ObjectsAll (name bucket) else ObjectsFilter (name bucket) q]"
    by (simp add: list_def env_defs ctl_defs split: option.split exn.split)
  show "fst (list bucket p w) =
     (case next_fault w of
        Some e \<Rightarrow> Inl e
      | None \<Rightarrow>
          Inr (filter (\<lambda>ob. prefix (case p of None \<Rightarrow> [] | Some q \<Rightarrow> q) (key ob))
                 (bucket_objects w (name bucket))))"
    by (simp add: list_def env_defs ctl_defs bucket_objects_def split: option.split exn.split)
  show "fst (list bucket None w) =
       (case next_fault w of Some e \<Rightarrow> Inl e | None \<Rightarrow> Inr (bucket_objects w (name bucket)))"
    by (simp add: list_def env_defs ctl_defs bucket_objects_def split: option.split exn.split)
  show "fst (list fixture_bucket (Some ''js/'') fixture_world) =
       Inr [\<lparr>bucket_name = ''fixture'', key = ''js/a.js''\<rparr>,
            \<lparr>bucket_name = ''fixture'', key = ''js/c.js''\<rparr>]"
    by (simp add: eval_defs)
qed

text \<open>
  Claim C9. An empty prefix is falsy, so \<^verbatim>\<open>list\<close> with the empty string behaves exactly as
  \<^verbatim>\<open>list\<close> with no prefix: it sends the request for all the objects, not the filtered one,
  and returns every object of the bucket.
\<close>

theorem list_empty_prefix_is_no_prefix:
  "list bucket (Some []) w = list bucket None w
   \<and> calls (snd (list bucket (Some []) w)) = calls w @ [ObjectsAll (name bucket)]
   \<and> fst (list bucket (Some []) w) =
       (case next_fault w of Some e \<Rightarrow> Inl e | None \<Rightarrow> Inr (bucket_objects w (name bucket)))"
  by (simp add: list_def env_defs ctl_defs bucket_objects_def split: option.split exn.split)

section \<open>Upload\<close>

text \<open>
  Claim C2. When the string given to \<^verbatim>\<open>put\<close> names a local file that cannot be opened for
  reading, \<^verbatim>\<open>put\<close> raises the \<^verbatim>\<open>IOError\<close> of \<^verbatim>\<open>open\<close>, after logging it, and sends no request to
  the remote storage client: the requests sent and the remote store are as before.
\<close>

theorem put_unopenable_file_raises_before_any_request:
  "fs w path = None \<Longrightarrow>
     put self (Str path) w =
       (Inl (IOError path),
        logger_exception ''Expected file name or binary data, got '%s'.'' [S path]
          (IOError path) w)
     \<and> calls (snd (put self (Str path) w)) = calls w
     \<and> length (calls (snd (put self (Str path) w))) = length (calls w)
     \<and> store (snd (put self (Str path) w)) = store w"
  by (simp add: put_defs ctl_defs)

theorem put_unopenable_file_witness:
  "fs demo_world ''build/js/missing.js'' = None
   \<and> fst (put demo_wrapper (Str ''build/js/missing.js'') demo_world) =
       Inl (IOError ''build/js/missing.js'')
   \<and> calls (snd (put demo_wrapper (Str ''build/js/missing.js'') demo_world)) = []
   \<and> store (snd (put demo_wrapper (Str ''build/js/missing.js'') demo_world)) = store demo_world"
proof -
  have h: "fs demo_world ''build/js/missing.js'' = None"
    by (simp add: fixture_defs)
  have c: "calls demo_world = []"
    by (simp add: fixture_defs)
  from put_unopenable_file_raises_before_any_request [OF h, of demo_wrapper] h c
  show ?thesis by (simp add: logger_exception_def)
qed

text \<open>
  Claim C3. When the string given to \<^verbatim>\<open>put\<close> names a file that can be opened, the file object
  that \<^verbatim>\<open>put\<close> opens (its descriptor is the next free one) is closed when \<^verbatim>\<open>put\<close> is left,
  whatever the outcome of the remote put and of the existence poll: the descriptor was
  handed out, it is not among the open ones afterwards, and no other descriptor changed.
\<close>

theorem put_closes_the_file_on_every_exit:
  "fs w path = Some content \<Longrightarrow>
     next_fd (snd (put self (Str path) w)) = Suc (next_fd w)
     \<and> next_fd w \<notin> set (open_fds (snd (put self (Str path) w)))
     \<and> open_fds (snd (put self (Str path) w)) = removeAll (next_fd w) (open_fds w)"
  by (simp add: put_defs env_defs ctl_defs split: option.split exn.split)

text \<open>The witness takes the exit by an exception: the service refuses the remote put.\<close>

theorem put_closes_the_file_witness:
  "fs failing_world ''build/js/index.js'' = Some [0x76, 0x61, 0x72]
   \<and> fst (put demo_wrapper (Str ''build/js/index.js'') failing_world) = Inl access_denied
   \<and> next_fd (snd (put demo_wrapper (Str ''build/js/index.js'') failing_world)) = 4
   \<and> open_fds (snd (put demo_wrapper (Str ''build/js/index.js'') failing_world)) = []"
proof -
  have h: "fs failing_world ''build/js/index.js'' = Some [0x76, 0x61, 0x72]"
    by (simp add: fixture_defs)
  have r: "fst (put demo_wrapper (Str ''build/js/index.js'') failing_world) = Inl access_denied"
    by (simp add: eval_defs)
  have n: "next_fd failing_world = 3" and o: "open_fds failing_world = []"
    by (simp_all add: fixture_defs)
  from put_closes_the_file_on_every_exit [OF h, of demo_wrapper] h r n o
  show ?thesis by simp
qed

text \<open>The same on the exit by a normal return.\<close>

lemma put_closes_the_file_on_success:
  "fst (put demo_wrapper (Str ''build/js/index.js'') demo_world) = Inr ()
   \<and> open_fds (snd (put demo_wrapper (Str ''build/js/index.js'') demo_world)) = []"
  by (simp add: eval_defs)

text \<open>
  Claim C4. For all byte payloads \<open>P\<close>: when \<^verbatim>\<open>put(P)\<close> has returned, and nothing else has
  changed the object, \<^verbatim>\<open>get()\<close> on the same object returns \<open>P\<close> (unless the service refuses the
  get, and then \<^verbatim>\<open>get\<close> raises that refusal).
\<close>

theorem put_then_get_returns_payload:
  "put self (Bytes P) w = (Inr u, w1) \<Longrightarrow>
     fst (get self w1) = (case next_fault w1 of Some e \<Rightarrow> Inl e | None \<Rightarrow> Inr P)"
  by (auto simp add: put_defs get_def env_defs ctl_defs update_conv'
        split: option.splits exn.splits)

theorem put_then_get_witness:
  "fst (put demo_wrapper (Bytes [0x68, 0x69]) demo_world) = Inr ()
   \<and> next_fault (snd (put demo_wrapper (Bytes [0x68, 0x69]) demo_world)) = None
   \<and> fst (get demo_wrapper (snd (put demo_wrapper (Bytes [0x68, 0x69]) demo_world))) =
       Inr [0x68, 0x69]"
proof -
  let ?w1 = "snd (put demo_wrapper (Bytes [0x68, 0x69]) demo_world)"
  have r: "fst (put demo_wrapper (Bytes [0x68, 0x69]) demo_world) = Inr ()"
    by (simp add: eval_defs)
  have n: "next_fault ?w1 = None"
    by (simp add: eval_defs)
  have p: "put demo_wrapper (Bytes [0x68, 0x69]) demo_world = (Inr (), ?w1)"
    using r by (simp add: prod_eq_iff)
  from put_then_get_returns_payload [OF p] r n show ?thesis
    by simp
qed

text \<open>
  Claim C7. Whenever \<^verbatim>\<open>put(payload)\<close> returns: it has sent the remote put with the payload's
  bytes and the canned policy \<^verbatim>\<open>public-read\<close>, then the existence poll, and nothing else; the
  value returned is \<^verbatim>\<open>None\<close>; and the remote object holds the payload's bytes under the
  public-read policy. After a remote put that succeeded, the outcome of \<^verbatim>\<open>put\<close> is the outcome
  of the existence poll: \<^verbatim>\<open>put\<close> does not return before the poll has confirmed the object.
\<close>

theorem put_success_confirmed_and_stored:
  "(put self data w = (Inr u, w') \<longrightarrow> payload_bytes data w = Some P \<longrightarrow>
      u = ()
      \<and> calls w' = calls w @
          [ObjectPut (bucket_name (object self)) (key (object self)) P ''public-read'',
           WaitUntilExists (bucket_name (object self)) (key (object self))]
      \<and> map_of (store w') (ident (object self)) =
          Some \<lparr>Body = P,
                Acl = \<lparr>Grants = Some [owner_grant (account w), all_users_read],
                       Owner = account w\<rparr>\<rparr>)
   \<and> (open_put_data data w = (Inr pd, w0) \<longrightarrow>
      object_put (object self) pd ''public-read'' w0 = (Inr u1, w1) \<longrightarrow>
        fst (put self data w) = fst (object_wait_until_exists (object self) w1))"
proof (intro conjI impI)
  assume a: "put self data w = (Inr u, w')" and b: "payload_bytes data w = Some P"
  show "u = ()" by simp
  from a b show "calls w' = calls w @
          [ObjectPut (bucket_name (object self)) (key (object self)) P ''public-read'',
           WaitUntilExists (bucket_name (object self)) (key (object self))]"
    by (cases data)
      (auto simp add: put_defs payload_bytes_def env_defs ctl_defs
         split: option.splits exn.splits)
  from a b show "map_of (store w') (ident (object self)) =
          Some \<lparr>Body = P,
                Acl = \<lparr>Grants = Some [owner_grant (account w), all_users_read],
                       Owner = account w\<rparr>\<rparr>"
    by (cases data)
      (auto simp add: put_defs payload_bytes_def env_defs ctl_defs update_conv' canned_acl_def
         split: option.splits exn.splits)
next
  assume "open_put_data data w = (Inr pd, w0)"
    and "object_put (object self) pd ''public-read'' w0 = (Inr u1, w1)"
  then show "fst (put self data w) = fst (object_wait_until_exists (object self) w1)"
    by (auto simp add: put_def upload_def ctl_defs
          split: option.splits exn.splits prod.splits sum.splits)
qed

theorem put_success_witness:
  "payload_bytes (Str ''build/js/index.js'') demo_world = Some [0x76, 0x61, 0x72]
   \<and> fst (put demo_wrapper (Str ''build/js/index.js'') demo_world) = Inr ()
   \<and> calls (snd (put demo_wrapper (Str ''build/js/index.js'') demo_world)) =
       [ObjectPut ''evaluationroom.com'' ''js/index.js'' [0x76, 0x61, 0x72] ''public-read'',
        WaitUntilExists ''evaluationroom.com'' ''js/index.js'']
   \<and> map_of (store (snd (put demo_wrapper (Str ''build/js/index.js'') demo_world)))
         (''evaluationroom.com'', ''js/index.js'') =
       Some \<lparr>Body = [0x76, 0x61, 0x72],
             Acl = \<lparr>Grants = Some [owner_grant (account demo_world), all_users_read],
                    Owner = account demo_world\<rparr>\<rparr>
   \<and> fst (open_put_data (Str ''build/js/index.js'') demo_world) =
       Inr (FileObj 3 [0x76, 0x61, 0x72])
   \<and> fst (object_put demo_object (FileObj 3 [0x76, 0x61, 0x72]) ''public-read''
            (snd (open_put_data (Str ''build/js/index.js'') demo_world))) = Inr ()
   \<and> fst (object_wait_until_exists demo_object
            (snd (object_put demo_object (FileObj 3 [0x76, 0x61, 0x72]) ''public-read''
                   (snd (open_put_data (Str ''build/js/index.js'') demo_world))))) = Inr ()"
proof -
  let ?data = "Str ''build/js/index.js''" and ?P = "[0x76, 0x61, 0x72] :: bytes"
  let ?w' = "snd (put demo_wrapper ?data demo_world)"
  let ?w0 = "snd (open_put_data ?data demo_world)"
  let ?w1 = "snd (object_put (object demo_wrapper) (FileObj 3 ?P) ''public-read'' ?w0)"
  note T = put_success_confirmed_and_stored
  have ob: "object demo_wrapper = demo_object"
    by (simp add: demo_wrapper_def init_def)
  have b: "payload_bytes ?data demo_world = Some ?P"
    by (simp add: eval_defs)
  have r: "fst (put demo_wrapper ?data demo_world) = Inr ()"
    by (simp add: eval_defs)
  have a: "put demo_wrapper ?data demo_world = (Inr (), ?w')"
    using r by (simp add: prod_eq_iff)
  have o: "fst (open_put_data ?data demo_world) = Inr (FileObj 3 ?P)"
    by (simp add: eval_defs)
  have o': "open_put_data ?data demo_world = (Inr (FileObj 3 ?P), ?w0)"
    using o by (simp add: prod_eq_iff)
  have p: "fst (object_put (object demo_wrapper) (FileObj 3 ?P) ''public-read'' ?w0) = Inr ()"
    by (simp add: eval_defs)
  have p': "object_put (object demo_wrapper) (FileObj 3 ?P) ''public-read'' ?w0 = (Inr (), ?w1)"
    using p by (simp add: prod_eq_iff)
  have c1: "calls ?w' = calls demo_world @
          [ObjectPut (bucket_name (object demo_wrapper)) (key (object demo_wrapper)) ?P
             ''public-read'',
           WaitUntilExists (bucket_name (object demo_wrapper)) (key (object demo_wrapper))]"
    and c2: "map_of (store ?w') (ident (object demo_wrapper)) =
          Some \<lparr>Body = ?P,
                Acl = \<lparr>Grants = Some [owner_grant (account demo_world), all_users_read],
                       Owner = account demo_world\<rparr>\<rparr>"
    using T [THEN conjunct1, rule_format, OF a b] by simp_all
  have c3: "fst (put demo_wrapper ?data demo_world) =
            fst (object_wait_until_exists (object demo_wrapper) ?w1)"
    using T [THEN conjunct2, rule_format, OF o' p'] .
  have d: "calls demo_world = []"
    by (simp add: fixture_defs)
  have i: "ident demo_object = (''evaluationroom.com'', ''js/index.js'')"
    "bucket_name demo_object = ''evaluationroom.com''" "key demo_object = ''js/index.js''"
    by (simp_all add: ident_def demo_object_def)
  from b r o p c1 c2 c3 d i show ?thesis
    by (simp add: ob)
qed

section \<open>Server-side copy\<close>

text \<open>
  Claim C8. Whenever \<^verbatim>\<open>copy(dest)\<close> returns, it has sent the copy request and then the existence
  poll of the destination, and a \<^verbatim>\<open>get()\<close> on the destination that the service serves returns
  the bytes that \<^verbatim>\<open>get()\<close> on the source returned at the time of the copy. After a copy request
  that succeeded, the outcome of \<^verbatim>\<open>copy\<close> is the outcome of the existence poll of the
  destination: \<^verbatim>\<open>copy\<close> does not return before the poll has confirmed it.
\<close>

theorem copy_then_get_returns_source_bytes:
  "(copy self dest w = (Inr u, w') \<longrightarrow> next_fault w' = None \<longrightarrow>
      fst (get (init dest) w') = fst (get self w)
      \<and> fst (get self w) =
          (case map_of (store w) (ident (object self)) of
             Some d \<Rightarrow> Inr (Body d)
           | None \<Rightarrow> Inl (ClientError ''NoSuchKey''))
      \<and> \<not> isl (fst (get self w))
      \<and> calls w' = calls w @
          [CopyFrom (bucket_name dest) (key dest)
             (bucket_name (object self)) (key (object self)),
           WaitUntilExists (bucket_name dest) (key dest)])
   \<and> (object_copy_from dest (bucket_name (object self)) (key (object self)) w = (Inr u1, w1)
        \<longrightarrow> fst (copy self dest w) = fst (object_wait_until_exists dest w1))"
proof (intro conjI impI)
  assume a: "copy self dest w = (Inr u, w')" and b: "next_fault w' = None"
  from a b show "fst (get (init dest) w') = fst (get self w)"
    by (auto simp add: copy_def get_def init_def ident_def env_defs ctl_defs update_conv'
          next_fault_def split: option.splits exn.splits list.splits)
  from a show "fst (get self w) =
          (case map_of (store w) (ident (object self)) of
             Some d \<Rightarrow> Inr (Body d)
           | None \<Rightarrow> Inl (ClientError ''NoSuchKey''))"
    by (auto simp add: copy_def get_def ident_def env_defs ctl_defs
          next_fault_def split: option.splits exn.splits list.splits)
  from a show "\<not> isl (fst (get self w))"
    by (auto simp add: copy_def get_def ident_def env_defs ctl_defs
          next_fault_def split: option.splits exn.splits list.splits)
  from a show "calls w' = calls w @
          [CopyFrom (bucket_name dest) (key dest)
             (bucket_name (object self)) (key (object self)),
           WaitUntilExists (bucket_name dest) (key dest)]"
    by (auto simp add: copy_def env_defs ctl_defs split: option.splits exn.splits)
next
  assume "object_copy_from dest (bucket_name (object self)) (key (object self)) w = (Inr u1, w1)"
  then show "fst (copy self dest w) = fst (object_wait_until_exists dest w1)"
    by (auto simp add: copy_def ctl_defs split: option.splits exn.splits prod.splits sum.splits)
qed

theorem copy_then_get_witness:
  "fst (copy demo_wrapper demo_dest demo_world) = Inr ()
   \<and> next_fault (snd (copy demo_wrapper demo_dest demo_world)) = None
   \<and> fst (get demo_wrapper demo_world) = Inr [0x61, 0x62]
   \<and> fst (get (init demo_dest) (snd (copy demo_wrapper demo_dest demo_world))) = Inr [0x61, 0x62]
   \<and> calls (snd (copy demo_wrapper demo_dest demo_world)) =
       [CopyFrom ''backup'' ''index.js'' ''evaluationroom.com'' ''js/index.js'',
        WaitUntilExists ''backup'' ''index.js'']
   \<and> fst (object_copy_from demo_dest ''evaluationroom.com'' ''js/index.js'' demo_world) = Inr ()
   \<and> fst (object_wait_until_exists demo_dest
            (snd (object_copy_from demo_dest ''evaluationroom.com'' ''js/index.js'' demo_world)))
       = Inr ()"
proof -
  let ?w' = "snd (copy demo_wrapper demo_dest demo_world)"
  let ?w1 = "snd (object_copy_from demo_dest (bucket_name (object demo_wrapper))
                    (key (object demo_wrapper)) demo_world)"
  note T = copy_then_get_returns_source_bytes
  have ob: "bucket_name (object demo_wrapper) = ''evaluationroom.com''"
    "key (object demo_wrapper) = ''js/index.js''"
    "bucket_name demo_dest = ''backup''" "key demo_dest = ''index.js''"
    by (simp_all add: fixture_defs)
  have r: "fst (copy demo_wrapper demo_dest demo_world) = Inr ()"
    by (simp add: eval_defs)
  have a: "copy demo_wrapper demo_dest demo_world = (Inr (), ?w')"
    using r by (simp add: prod_eq_iff)
  have n: "next_fault ?w' = None"
    by (simp add: eval_defs)
  have g: "fst (get demo_wrapper demo_world) = Inr [0x61, 0x62]"
    by (simp add: eval_defs)
  have f: "fst (object_copy_from demo_dest (bucket_name (object demo_wrapper))
                  (key (object demo_wrapper)) demo_world) = Inr ()"
    by (simp add: eval_defs)
  have f': "object_copy_from demo_dest (bucket_name (object demo_wrapper))
              (key (object demo_wrapper)) demo_world = (Inr (), ?w1)"
    using f by (simp add: prod_eq_iff)
  have c1: "fst (get (init demo_dest) ?w') = fst (get demo_wrapper demo_world)"
    and c2: "calls ?w' = calls demo_world @
          [CopyFrom (bucket_name demo_dest) (key demo_dest)
             (bucket_name (object demo_wrapper)) (key (object demo_wrapper)),
           WaitUntilExists (bucket_name demo_dest) (key demo_dest)]"
    using T [THEN conjunct1, rule_format, OF a n] by simp_all
  have c3: "fst (copy demo_wrapper demo_dest demo_world) =
            fst (object_wait_until_exists demo_dest ?w1)"
    using T [THEN conjunct2, rule_format, OF f'] .
  have d: "calls demo_world = []"
    by (simp add: fixture_defs)
  from r n g f c1 c2 c3 d show ?thesis
    by (simp add: ob)
qed

section \<open>Access policy\<close>

text \<open>
  Claim C1 says that, for every object whose remote policy holds a grant list \<open>G\<close> and an
  owner, \<^verbatim>\<open>put_acl(email)\<close> followed by \<^verbatim>\<open>get_acl()\<close> yields \<open>G\<close> with the read grant for the email
  address appended. \<^verbatim>\<open>get_acl\<close>, documented to return the policy of the object, reads
  \<^verbatim>\<open>acl.owner['DisplayName']\<close> for its log line (line 148). For an owner that has an identifier
  and no display name, and a service that serves every request, \<^verbatim>\<open>put_acl\<close> returns and the
  remote policy holds \<open>G\<close> with the new grant appended, but \<^verbatim>\<open>get_acl\<close> raises \<^verbatim>\<open>KeyError\<close> and
  yields no policy.
\<close>

theorem get_acl_raises_KeyError_after_put_acl:
  "map_of (store nameless_owner_world) (ident (object demo_wrapper)) =
     Some \<lparr>Body = [0x61, 0x62],
           Acl = \<lparr>Grants = Some [all_users_read], Owner = [(''ID'', ''75aa57f0'')]\<rparr>\<rparr>
   \<and> faults nameless_owner_world = []
   \<and> fst (put_acl demo_wrapper ''fcernaf@gmail.com'' nameless_owner_world) = Inr ()
   \<and> map_of (store (snd (put_acl demo_wrapper ''fcernaf@gmail.com'' nameless_owner_world)))
         (ident (object demo_wrapper)) =
       Some \<lparr>Body = [0x61, 0x62],
             Acl = \<lparr>Grants = Some [all_users_read, email_grant ''fcernaf@gmail.com''],
                    Owner = [(''ID'', ''75aa57f0'')]\<rparr>\<rparr>
   \<and> fst (get_acl demo_wrapper
            (snd (put_acl demo_wrapper ''fcernaf@gmail.com'' nameless_owner_world))) =
       Inl (KeyError ''DisplayName'')
   \<and> logs (snd (get_acl demo_wrapper
            (snd (put_acl demo_wrapper ''fcernaf@gmail.com'' nameless_owner_world)))) =
       [LogInfo ''Granted read access to %s.'' [S ''fcernaf@gmail.com'']]"
  by (simp add: eval_defs)

text \<open>
  Where \<^verbatim>\<open>get_acl\<close> returns, the claim holds. Let the remote policy of the object hold the grant
  list \<open>G\<close> and the owner \<open>ow\<close>. When \<^verbatim>\<open>put_acl(email)\<close> has returned and \<^verbatim>\<open>get_acl()\<close> then
  returns, the grant list it yields is \<open>G\<close> with one entry appended at the end, the read
  grant for the email address; the entries of \<open>G\<close> are unchanged and in their places, and
  the owner is still \<open>ow\<close>.
\<close>

lemma put_acl_then_get_acl_appends_one_grant:
  "map_of (store w) (ident (object self)) = Some d \<Longrightarrow> Grants (Acl d) = Some G \<Longrightarrow>
   Owner (Acl d) = ow \<Longrightarrow>
   put_acl self email w = (Inr u, w1) \<Longrightarrow> get_acl self w1 = (Inr acl, w2) \<Longrightarrow>
     Grants acl =
       Some (G @ [\<lparr>Grantee = [(''Type'', ''AmazonCustomerByEmail''), (''EmailAddress'', email)],
                    Permission = ''READ''\<rparr>])
     \<and> Owner acl = ow"
  by (auto simp add: put_acl_def get_acl_def grants_or_empty_def email_grant_def env_defs ctl_defs
        update_conv' split: option.splits exn.splits if_splits)

lemma put_acl_then_get_acl_on_demo_world:
  "map_of (store demo_world) (ident (object demo_wrapper)) =
      Some \<lparr>Body = [0x61, 0x62], Acl = canned_acl ''public-read'' (account empty_world)\<rparr>
   \<and> fst (put_acl demo_wrapper ''fcernaf@gmail.com'' demo_world) = Inr ()
   \<and> fst (get_acl demo_wrapper (snd (put_acl demo_wrapper ''fcernaf@gmail.com'' demo_world))) =
       Inr \<lparr>Grants = Some [owner_grant (account empty_world), all_users_read,
                            email_grant ''fcernaf@gmail.com''],
            Owner = account empty_world\<rparr>"
proof -
  let ?e = "''fcernaf@gmail.com''"
  let ?d = "\<lparr>Body = [0x61, 0x62], Acl = canned_acl ''public-read'' (account empty_world)\<rparr>"
  let ?w1 = "snd (put_acl demo_wrapper ?e demo_world)"
  let ?acl = "\<lparr>Grants = Some [owner_grant (account empty_world), all_users_read,
                              email_grant ?e],
              Owner = account empty_world\<rparr>"
  have a: "map_of (store demo_world) (ident (object demo_wrapper)) = Some ?d"
    by (simp add: eval_defs)
  have g: "Grants (Acl ?d) = Some [owner_grant (account empty_world), all_users_read]"
    by (simp add: canned_acl_def)
  have b: "fst (put_acl demo_wrapper ?e demo_world) = Inr ()"
    by (simp add: eval_defs)
  have c: "fst (get_acl demo_wrapper ?w1) = Inr ?acl"
    by (simp add: eval_defs)
  have b': "put_acl demo_wrapper ?e demo_world = (Inr (), ?w1)"
    using b by (simp add: prod_eq_iff)
  have c': "get_acl demo_wrapper ?w1 = (Inr ?acl, snd (get_acl demo_wrapper ?w1))"
    using c by (simp add: prod_eq_iff)
  from put_acl_then_get_acl_appends_one_grant [OF a g refl b' c'] a b c show ?thesis
    by simp
qed

text \<open>
  \<^verbatim>\<open>get_acl\<close> does return when the owner has a display name and the service serves the three
  requests of the two calls.
\<close>

lemma put_acl_then_get_acl_returns:
  "map_of (store w) (ident (object self)) = Some d \<Longrightarrow> Grants (Acl d) = Some G \<Longrightarrow>
   map_of (Owner (Acl d)) ''DisplayName'' = Some n \<Longrightarrow> faults w = [] \<Longrightarrow>
     fst (put_acl self email w) = Inr ()
     \<and> fst (get_acl self (snd (put_acl self email w))) =
         Inr \<lparr>Grants = Some (G @ [email_grant email]), Owner = Owner (Acl d)\<rparr>"
  by (simp add: put_acl_def get_acl_def grants_or_empty_def env_defs ctl_defs update_conv'
        next_fault_def)

text \<open>
  \<^verbatim>\<open>get_acl\<close> reads the display name of the owner for its log line: when the owner that the
  service returns has none, \<^verbatim>\<open>get_acl\<close> raises \<^verbatim>\<open>KeyError\<close>, which no handler of it catches.
\<close>

lemma get_acl_owner_without_display_name:
  "acl_load (object self) w = (Inr acl, w1) \<Longrightarrow> map_of (Owner acl) ''DisplayName'' = None \<Longrightarrow>
     get_acl self w = (Inl (KeyError ''DisplayName''), w1)"
  by (simp add: get_acl_def and_then_def except_ClientError_def)

text \<open>
  Claim C10. In every call of \<^verbatim>\<open>put_acl\<close> that has read the policy, the policy written back
  carries the owner that was read and the grants that were read followed by the new grant;
  when the policy read has no grants (\<^verbatim>\<open>None\<close> or the empty list), the list written is the
  new grant alone. When \<^verbatim>\<open>put_acl\<close> returns, the object has the owner and the body it had
  before, its grants are the list written, and no other object has changed.
\<close>

theorem put_acl_writes_back_owner_and_appended_grants:
  "acl_load (object self) w = (Inr acl, w1) \<Longrightarrow>
     calls (snd (put_acl self email w)) = calls w1 @
       [AclPut (bucket_name (object self)) (key (object self))
          (case Grants acl of
             None \<Rightarrow> [email_grant email]
           | Some G \<Rightarrow> G @ [email_grant email])
          (Owner acl)]
     \<and> (Grants acl = None \<or> Grants acl = Some [] \<longrightarrow>
          calls (snd (put_acl self email w)) = calls w1 @
            [AclPut (bucket_name (object self)) (key (object self)) [email_grant email]
               (Owner acl)])
     \<and> (put_acl self email w = (Inr u, w2) \<longrightarrow>
          map_option (Owner \<circ> Acl) (map_of (store w) (ident (object self))) = Some (Owner acl)
          \<and> map_option (Owner \<circ> Acl) (map_of (store w2) (ident (object self))) =
              Some (Owner acl)
          \<and> map_option (Grants \<circ> Acl) (map_of (store w2) (ident (object self))) =
              Some (Some (case Grants acl of
                            None \<Rightarrow> [email_grant email]
                          | Some G \<Rightarrow> G @ [email_grant email]))
          \<and> map_option Body (map_of (store w2) (ident (object self))) =
              map_option Body (map_of (store w) (ident (object self)))
          \<and> (\<forall>i. i \<noteq> ident (object self) \<longrightarrow> map_of (store w2) i = map_of (store w) i))"
proof (intro conjI impI)
  assume l: "acl_load (object self) w = (Inr acl, w1)"
  then show c: "calls (snd (put_acl self email w)) = calls w1 @
       [AclPut (bucket_name (object self)) (key (object self))
          (case Grants acl of
             None \<Rightarrow> [email_grant email]
           | Some G \<Rightarrow> G @ [email_grant email])
          (Owner acl)]"
    by (auto simp add: put_acl_def grants_or_empty_def acl_put_def request_eq ctl_defs
          split: option.splits exn.splits if_splits)
  {
    assume "Grants acl = None \<or> Grants acl = Some []"
    with c show "calls (snd (put_acl self email w)) = calls w1 @
            [AclPut (bucket_name (object self)) (key (object self)) [email_grant email]
               (Owner acl)]"
      by auto
  }
  {
    assume s: "put_acl self email w = (Inr u, w2)"
    from l s show "map_option (Owner \<circ> Acl) (map_of (store w) (ident (object self))) =
        Some (Owner acl)"
      by (auto simp add: put_acl_def env_defs ctl_defs split: option.splits exn.splits)
    from l s show "map_option (Owner \<circ> Acl) (map_of (store w2) (ident (object self))) =
        Some (Owner acl)"
      by (auto simp add: put_acl_def env_defs ctl_defs update_conv'
            split: option.splits exn.splits)
    from l s show "map_option (Grants \<circ> Acl) (map_of (store w2) (ident (object self))) =
              Some (Some (case Grants acl of
                            None \<Rightarrow> [email_grant email]
                          | Some G \<Rightarrow> G @ [email_grant email]))"
      by (auto simp add: put_acl_def grants_or_empty_def env_defs ctl_defs update_conv'
            split: option.splits exn.splits if_splits)
    from l s show "map_option Body (map_of (store w2) (ident (object self))) =
              map_option Body (map_of (store w) (ident (object self)))"
      by (auto simp add: put_acl_def env_defs ctl_defs update_conv'
            split: option.splits exn.splits)
    from l s show "\<forall>i. i \<noteq> ident (object self) \<longrightarrow> map_of (store w2) i = map_of (store w) i"
      by (auto simp add: put_acl_def env_defs ctl_defs update_conv'
            split: option.splits exn.splits)
  }
qed

theorem put_acl_writes_back_witness:
  "fst (acl_load demo_object demo_world) =
     Inr \<lparr>Grants = Some [owner_grant (account empty_world), all_users_read],
          Owner = account empty_world\<rparr>
   \<and> fst (put_acl demo_wrapper ''fcernaf@gmail.com'' demo_world) = Inr ()
   \<and> calls (snd (put_acl demo_wrapper ''fcernaf@gmail.com'' demo_world)) =
       [AclLoad ''evaluationroom.com'' ''js/index.js'',
        AclPut ''evaluationroom.com'' ''js/index.js''
          [owner_grant (account empty_world), all_users_read, email_grant ''fcernaf@gmail.com'']
          (account empty_world)]
   \<and> map_option (Owner \<circ> Acl)
        (map_of (store (snd (put_acl demo_wrapper ''fcernaf@gmail.com'' demo_world)))
           (''evaluationroom.com'', ''js/index.js'')) = Some (account empty_world)
   \<and> map_option Body
        (map_of (store (snd (put_acl demo_wrapper ''fcernaf@gmail.com'' demo_world)))
           (''evaluationroom.com'', ''js/index.js'')) = Some [0x61, 0x62]
   \<and> fst (acl_load demo_object bare_world) =
       Inr \<lparr>Grants = None, Owner = account empty_world\<rparr>
   \<and> calls (snd (put_acl demo_wrapper ''fcernaf@gmail.com'' bare_world)) =
       [AclLoad ''evaluationroom.com'' ''js/index.js'',
        AclPut ''evaluationroom.com'' ''js/index.js'' [email_grant ''fcernaf@gmail.com'']
          (account empty_world)]"
proof -
  let ?e = "''fcernaf@gmail.com''"
  let ?acl = "\<lparr>Grants = Some [owner_grant (account empty_world), all_users_read],
               Owner = account empty_world\<rparr>"
  let ?bare = "\<lparr>Grants = None, Owner = account empty_world\<rparr>"
  let ?w1 = "snd (acl_load (object demo_wrapper) demo_world)"
  let ?b1 = "snd (acl_load (object demo_wrapper) bare_world)"
  let ?w2 = "snd (put_acl demo_wrapper ?e demo_world)"
  note T = put_acl_writes_back_owner_and_appended_grants
  have ob: "object demo_wrapper = demo_object"
    by (simp add: demo_wrapper_def init_def)
  have i: "ident demo_object = (''evaluationroom.com'', ''js/index.js'')"
    "bucket_name demo_object = ''evaluationroom.com''" "key demo_object = ''js/index.js''"
    by (simp_all add: ident_def demo_object_def)
  have l: "fst (acl_load (object demo_wrapper) demo_world) = Inr ?acl"
    by (simp add: eval_defs)
  have l': "acl_load (object demo_wrapper) demo_world = (Inr ?acl, ?w1)"
    using l by (simp add: prod_eq_iff)
  have lc: "calls ?w1 = [AclLoad ''evaluationroom.com'' ''js/index.js'']"
    by (simp add: eval_defs)
  have m: "fst (acl_load (object demo_wrapper) bare_world) = Inr ?bare"
    by (simp add: eval_defs)
  have m': "acl_load (object demo_wrapper) bare_world = (Inr ?bare, ?b1)"
    using m by (simp add: prod_eq_iff)
  have mc: "calls ?b1 = [AclLoad ''evaluationroom.com'' ''js/index.js'']"
    by (simp add: eval_defs)
  have r: "fst (put_acl demo_wrapper ?e demo_world) = Inr ()"
    by (simp add: eval_defs)
  have r': "put_acl demo_wrapper ?e demo_world = (Inr (), ?w2)"
    using r by (simp add: prod_eq_iff)
  have bd: "map_option Body (map_of (store demo_world) (ident (object demo_wrapper))) =
            Some [0x61, 0x62]"
    by (simp add: eval_defs)
  have c1: "calls ?w2 = calls ?w1 @
       [AclPut (bucket_name (object demo_wrapper)) (key (object demo_wrapper))
          (case Grants ?acl of
             None \<Rightarrow> [email_grant ?e]
           | Some G \<Rightarrow> G @ [email_grant ?e])
          (Owner ?acl)]"
    using T [OF l', THEN conjunct1] .
  have c2: "calls (snd (put_acl demo_wrapper ?e bare_world)) = calls ?b1 @
            [AclPut (bucket_name (object demo_wrapper)) (key (object demo_wrapper))
               [email_grant ?e] (Owner ?bare)]"
    using T [OF m', THEN conjunct2, THEN conjunct1, rule_format] by simp
  have c3: "map_option (Owner \<circ> Acl) (map_of (store ?w2) (ident (object demo_wrapper))) =
              Some (Owner ?acl)"
    and c4: "map_option Body (map_of (store ?w2) (ident (object demo_wrapper))) =
              map_option Body (map_of (store demo_world) (ident (object demo_wrapper)))"
    using T [OF l', THEN conjunct2, THEN conjunct2, rule_format, OF r'] by simp_all
  from l m r c1 c2 c3 c4 lc mc bd i show ?thesis
    by (simp add: ob)
qed

section \<open>Failures of the remote storage client\<close>

text \<open>
  The claim that every failure that the remote storage client reports is logged with the
  identity of the resource (bucket and key) does not hold of the handlers, at two places.
  The handlers name \<^verbatim>\<open>ClientError\<close> alone, and the existence poll of \<^verbatim>\<open>put\<close> reports that it gave
  up by a \<^verbatim>\<open>WaiterError\<close>: the remote put is served, the poll fails, \<^verbatim>\<open>put\<close> raises the
  \<^verbatim>\<open>WaiterError\<close>, and the log is as it was. And the log records of \<^verbatim>\<open>put_acl\<close> and \<^verbatim>\<open>get_acl\<close>
  hold the key without the bucket: they are the same for the objects of two buckets that have
  the same key.
\<close>

theorem remote_failure_logging_counterexample:
  "fst (object_put (object demo_wrapper) (RawBytes [0x68, 0x69]) ''public-read''
          poll_failing_world) = Inr ()
   \<and> fst (object_wait_until_exists (object demo_wrapper)
            (snd (object_put (object demo_wrapper) (RawBytes [0x68, 0x69]) ''public-read''
                    poll_failing_world))) = Inl (WaiterError ''ObjectExists'')
   \<and> fst (put demo_wrapper (Bytes [0x68, 0x69]) poll_failing_world) =
       Inl (WaiterError ''ObjectExists'')
   \<and> logs poll_failing_world = []
   \<and> logs (snd (put demo_wrapper (Bytes [0x68, 0x69]) poll_failing_world)) = []
   \<and> bucket_name (object demo_wrapper) = ''evaluationroom.com''
   \<and> bucket_name (object (init other_bucket_object)) = ''other''
   \<and> fst (put_acl demo_wrapper ''fcernaf@gmail.com'' failing_world) =
       Inl (ClientError ''AccessDenied'')
   \<and> logs (snd (put_acl demo_wrapper ''fcernaf@gmail.com'' failing_world)) =
       [LogException ''Couldn't add ACL to object '%s'.'' [S ''js/index.js'']
          (ClientError ''AccessDenied'')]
   \<and> logs (snd (put_acl (init other_bucket_object) ''fcernaf@gmail.com'' failing_world)) =
       [LogException ''Couldn't add ACL to object '%s'.'' [S ''js/index.js'']
          (ClientError ''AccessDenied'')]
   \<and> logs (snd (get_acl demo_wrapper failing_world)) =
       [LogException ''Couldn't get ACL for object %s.'' [S ''js/index.js'']
          (ClientError ''AccessDenied'')]
   \<and> logs (snd (get_acl (init other_bucket_object) failing_world)) =
       [LogException ''Couldn't get ACL for object %s.'' [S ''js/index.js'']
          (ClientError ''AccessDenied'')]"
  by (simp add: eval_defs)

text \<open>
  Claim C6, amended. In every operation of the facade (\<^verbatim>\<open>put\<close>, \<^verbatim>\<open>get\<close>, \<^verbatim>\<open>list\<close>, \<^verbatim>\<open>copy\<close>,
  \<^verbatim>\<open>put_acl\<close>, \<^verbatim>\<open>get_acl\<close>) and at every request that it sends, an exception that the request
  raises is raised to the caller unchanged. When it is a \<^verbatim>\<open>ClientError\<close>, it is logged first,
  with the exception itself and with these identifiers: the key and the bucket of the object
  in \<^verbatim>\<open>put\<close> and \<^verbatim>\<open>get\<close>, the keys and buckets of source and destination in \<^verbatim>\<open>copy\<close>, the name of
  the bucket in \<^verbatim>\<open>list\<close>, the key of the object alone in \<^verbatim>\<open>put_acl\<close> and \<^verbatim>\<open>get_acl\<close>. An exception
  of another class (\<^verbatim>\<open>WaiterError\<close>, \<^verbatim>\<open>IOError\<close>, \<^verbatim>\<open>KeyError\<close>) is not logged. The world that the
  operation leaves is the world that the failed request left, with that log record if any
  (and, in \<^verbatim>\<open>put\<close>, with the file closed): no request is sent again and none is sent in its
  place.
\<close>

theorem remote_exception_is_reraised_and_ClientError_logged:
  "(open_put_data data w = (Inr pd, w0) \<longrightarrow>
     object_put (object self) pd ''public-read'' w0 = (Inl e, w1) \<longrightarrow>
     put self data w =
       (Inl e,
        close_if_closable pd
          (logged_if_ClientError ''Couldn't put object '%s' to bucket '%s'.''
           [S (key (object self)), S (bucket_name (object self))] e w1)))
   \<and> (open_put_data data w = (Inr pd, w0) \<longrightarrow>
     object_put (object self) pd ''public-read'' w0 = (Inr u, w1) \<longrightarrow>
     object_wait_until_exists (object self) w1 = (Inl e, w2) \<longrightarrow>
     put self data w =
       (Inl e,
        close_if_closable pd
          (logged_if_ClientError ''Couldn't put object '%s' to bucket '%s'.''
           [S (key (object self)), S (bucket_name (object self))] e w2)))
   \<and> (object_get (object self) w = (Inl e, w1) \<longrightarrow>
     get self w =
       (Inl e,
        logged_if_ClientError ''Couldn't get object '%s' from bucket '%s'.''
           [S (key (object self)), S (bucket_name (object self))] e w1))
   \<and> (objects_all bucket w = (Inl e, w1) \<longrightarrow>
     list bucket None w =
       (Inl e,
        logged_if_ClientError ''Couldn't get objects for bucket '%s'.''
           [S (name bucket)] e w1))
   \<and> (p \<noteq> [] \<longrightarrow>
     objects_filter bucket p w = (Inl e, w1) \<longrightarrow>
     list bucket (Some p) w =
       (Inl e,
        logged_if_ClientError ''Couldn't get objects for bucket '%s'.''
           [S (name bucket)] e w1))
   \<and> (object_copy_from dest (bucket_name (object self)) (key (object self)) w = (Inl e, w1) \<longrightarrow>
     copy self dest w =
       (Inl e,
        logged_if_ClientError ''Couldn't copy object from %s/%s to %s/%s.''
           [S (key (object self)), S (bucket_name (object self)),
            S (bucket_name dest), S (key dest)] e w1))
   \<and> (object_copy_from dest (bucket_name (object self)) (key (object self)) w = (Inr u, w1) \<longrightarrow>
     object_wait_until_exists dest w1 = (Inl e, w2) \<longrightarrow>
     copy self dest w =
       (Inl e,
        logged_if_ClientError ''Couldn't copy object from %s/%s to %s/%s.''
           [S (key (object self)), S (bucket_name (object self)),
            S (bucket_name dest), S (key dest)] e w2))
   \<and> (acl_load (object self) w = (Inl e, w1) \<longrightarrow>
     put_acl self email w =
       (Inl e,
        logged_if_ClientError ''Couldn't add ACL to object '%s'.''
           [S (key (object self))] e w1))
   \<and> (acl_load (object self) w = (Inr acl, w1) \<longrightarrow>
     acl_put (object self) (grants_or_empty (Grants acl) @ [email_grant email])
       (Owner acl) w1 = (Inl e, w2) \<longrightarrow>
     put_acl self email w =
       (Inl e,
        logged_if_ClientError ''Couldn't add ACL to object '%s'.''
           [S (key (object self))] e w2))
   \<and> (acl_load (object self) w = (Inl e, w1) \<longrightarrow>
     get_acl self w =
       (Inl e,
        logged_if_ClientError ''Couldn't get ACL for object %s.''
           [S (key (object self))] e w1))
   \<and> logged_if_ClientError fmt args (ClientError c) w =
       w\<lparr>logs := logs w @ [LogException fmt args (ClientError c)]\<rparr>
   \<and> logged_if_ClientError fmt args (WaiterError m) w = w
   \<and> logged_if_ClientError fmt args (IOError m) w = w
   \<and> logged_if_ClientError fmt args (KeyError m) w = w"
  by (simp add: put_def upload_def get_def list_def copy_def put_acl_def get_acl_def
        and_then_def except_ClientError_def try_finally_def logged_if_ClientError_def
        logger_exception_def split: exn.split)

theorem remote_exception_witness:
  "fst (open_put_data (Str ''build/js/index.js'') failing_world) =
       Inr (FileObj 3 [0x76, 0x61, 0x72])
   \<and> fst (object_put (object demo_wrapper) (FileObj 3 [0x76, 0x61, 0x72]) ''public-read''
         (snd (open_put_data (Str ''build/js/index.js'') failing_world))) =
       Inl (ClientError ''AccessDenied'')
   \<and> fst (put demo_wrapper (Str ''build/js/index.js'') failing_world) =
       Inl (ClientError ''AccessDenied'')
   \<and> logs (snd (put demo_wrapper (Str ''build/js/index.js'') failing_world)) =
       [LogException ''Couldn't put object '%s' to bucket '%s'.''
          [S ''js/index.js'', S ''evaluationroom.com''] (ClientError ''AccessDenied'')]
   \<and> calls (snd (put demo_wrapper (Str ''build/js/index.js'') failing_world)) =
       [ObjectPut ''evaluationroom.com'' ''js/index.js'' [0x76, 0x61, 0x72] ''public-read'']
   \<and> fst (open_put_data (Bytes [0x68, 0x69]) poll_failing_world) =
       Inr (RawBytes [0x68, 0x69])
   \<and> fst (object_put (object demo_wrapper) (RawBytes [0x68, 0x69]) ''public-read''
         (snd (open_put_data (Bytes [0x68, 0x69]) poll_failing_world))) =
       Inr ()
   \<and> fst (object_wait_until_exists (object demo_wrapper)
         (snd (object_put (object demo_wrapper) (RawBytes [0x68, 0x69]) ''public-read''
           (snd (open_put_data (Bytes [0x68, 0x69]) poll_failing_world))))) =
       Inl (WaiterError ''ObjectExists'')
   \<and> fst (put demo_wrapper (Bytes [0x68, 0x69]) poll_failing_world) =
       Inl (WaiterError ''ObjectExists'')
   \<and> logs (snd (put demo_wrapper (Bytes [0x68, 0x69]) poll_failing_world)) =
       []
   \<and> calls (snd (put demo_wrapper (Bytes [0x68, 0x69]) poll_failing_world)) =
       [ObjectPut ''evaluationroom.com'' ''js/index.js'' [0x68, 0x69] ''public-read'',
        WaitUntilExists ''evaluationroom.com'' ''js/index.js'']
   \<and> fst (object_get (object demo_wrapper) failing_world) =
       Inl (ClientError ''AccessDenied'')
   \<and> fst (get demo_wrapper failing_world) =
       Inl (ClientError ''AccessDenied'')
   \<and> logs (snd (get demo_wrapper failing_world)) =
       [LogException ''Couldn't get object '%s' from bucket '%s'.''
          [S ''js/index.js'', S ''evaluationroom.com''] (ClientError ''AccessDenied'')]
   \<and> calls (snd (get demo_wrapper failing_world)) =
       [ObjectGet ''evaluationroom.com'' ''js/index.js'']
   \<and> fst (objects_all fixture_bucket failing_world) =
       Inl (ClientError ''AccessDenied'')
   \<and> fst (list fixture_bucket None failing_world) =
       Inl (ClientError ''AccessDenied'')
   \<and> logs (snd (list fixture_bucket None failing_world)) =
       [LogException ''Couldn't get objects for bucket '%s'.''
          [S ''fixture''] (ClientError ''AccessDenied'')]
   \<and> calls (snd (list fixture_bucket None failing_world)) =
       [ObjectsAll ''fixture'']
   \<and> fst (objects_filter fixture_bucket ''js/'' failing_world) =
       Inl (ClientError ''AccessDenied'')
   \<and> fst (list fixture_bucket (Some ''js/'') failing_world) =
       Inl (ClientError ''AccessDenied'')
   \<and> logs (snd (list fixture_bucket (Some ''js/'') failing_world)) =
       [LogException ''Couldn't get objects for bucket '%s'.''
          [S ''fixture''] (ClientError ''AccessDenied'')]
   \<and> calls (snd (list fixture_bucket (Some ''js/'') failing_world)) =
       [ObjectsFilter ''fixture'' ''js/'']
   \<and> fst (object_copy_from demo_dest (bucket_name (object demo_wrapper)) (key (object demo_wrapper)) failing_world) =
       Inl (ClientError ''AccessDenied'')
   \<and> fst (copy demo_wrapper demo_dest failing_world) =
       Inl (ClientError ''AccessDenied'')
   \<and> logs (snd (copy demo_wrapper demo_dest failing_world)) =
       [LogException ''Couldn't copy object from %s/%s to %s/%s.''
          [S ''js/index.js'', S ''evaluationroom.com'', S ''backup'', S ''index.js''] (ClientError ''AccessDenied'')]
   \<and> calls (snd (copy demo_wrapper demo_dest failing_world)) =
       [CopyFrom ''backup'' ''index.js'' ''evaluationroom.com'' ''js/index.js'']
   \<and> fst (object_copy_from demo_dest (bucket_name (object demo_wrapper)) (key (object demo_wrapper)) poll_failing_world) =
       Inr ()
   \<and> fst (object_wait_until_exists demo_dest
         (snd (object_copy_from demo_dest (bucket_name (object demo_wrapper)) (key (object demo_wrapper)) poll_failing_world))) =
       Inl (WaiterError ''ObjectExists'')
   \<and> fst (copy demo_wrapper demo_dest poll_failing_world) =
       Inl (WaiterError ''ObjectExists'')
   \<and> logs (snd (copy demo_wrapper demo_dest poll_failing_world)) =
       []
   \<and> calls (snd (copy demo_wrapper demo_dest poll_failing_world)) =
       [CopyFrom ''backup'' ''index.js'' ''evaluationroom.com'' ''js/index.js'',
        WaitUntilExists ''backup'' ''index.js'']
   \<and> fst (acl_load (object demo_wrapper) failing_world) =
       Inl (ClientError ''AccessDenied'')
   \<and> fst (put_acl demo_wrapper ''fcernaf@gmail.com'' failing_world) =
       Inl (ClientError ''AccessDenied'')
   \<and> logs (snd (put_acl demo_wrapper ''fcernaf@gmail.com'' failing_world)) =
       [LogException ''Couldn't add ACL to object '%s'.''
          [S ''js/index.js''] (ClientError ''AccessDenied'')]
   \<and> calls (snd (put_acl demo_wrapper ''fcernaf@gmail.com'' failing_world)) =
       [AclLoad ''evaluationroom.com'' ''js/index.js'']
   \<and> fst (acl_load (object demo_wrapper) failing_later_world) =
       Inr (canned_acl ''public-read'' (account empty_world))
   \<and> fst (acl_put (object demo_wrapper) (grants_or_empty (Grants (canned_acl ''public-read'' (account empty_world))) @ [email_grant ''fcernaf@gmail.com'']) (Owner (canned_acl ''public-read'' (account empty_world)))
         (snd (acl_load (object demo_wrapper) failing_later_world))) =
       Inl (ClientError ''AccessDenied'')
   \<and> fst (put_acl demo_wrapper ''fcernaf@gmail.com'' failing_later_world) =
       Inl (ClientError ''AccessDenied'')
   \<and> logs (snd (put_acl demo_wrapper ''fcernaf@gmail.com'' failing_later_world)) =
       [LogException ''Couldn't add ACL to object '%s'.''
          [S ''js/index.js''] (ClientError ''AccessDenied'')]
   \<and> calls (snd (put_acl demo_wrapper ''fcernaf@gmail.com'' failing_later_world)) =
       [AclLoad ''evaluationroom.com'' ''js/index.js'',
        AclPut ''evaluationroom.com'' ''js/index.js''
          [owner_grant (account empty_world), all_users_read,
           email_grant ''fcernaf@gmail.com''] (account empty_world)]
   \<and> fst (get_acl demo_wrapper failing_world) =
       Inl (ClientError ''AccessDenied'')
   \<and> logs (snd (get_acl demo_wrapper failing_world)) =
       [LogException ''Couldn't get ACL for object %s.''
          [S ''js/index.js''] (ClientError ''AccessDenied'')]
   \<and> calls (snd (get_acl demo_wrapper failing_world)) =
       [AclLoad ''evaluationroom.com'' ''js/index.js'']"
proof -
  note T = remote_exception_is_reraised_and_ClientError_logged
  have f1_0: "fst (open_put_data (Str ''build/js/index.js'') failing_world) =
        Inr (FileObj 3 [0x76, 0x61, 0x72])"
    by (simp add: eval_defs)
  have h1_0: "open_put_data (Str ''build/js/index.js'') failing_world =
      (Inr (FileObj 3 [0x76, 0x61, 0x72]),
       snd (open_put_data (Str ''build/js/index.js'') failing_world))"
    using f1_0 by (simp add: prod_eq_iff)
  have f1_1: "fst (object_put (object demo_wrapper) (FileObj 3 [0x76, 0x61, 0x72]) ''public-read''
          (snd (open_put_data (Str ''build/js/index.js'') failing_world))) =
        Inl (ClientError ''AccessDenied'')"
    by (simp add: eval_defs)
  have h1_1: "object_put (object demo_wrapper) (FileObj 3 [0x76, 0x61, 0x72]) ''public-read''
        (snd (open_put_data (Str ''build/js/index.js'') failing_world)) =
      (Inl (ClientError ''AccessDenied''),
       snd (object_put (object demo_wrapper) (FileObj 3 [0x76, 0x61, 0x72]) ''public-read''
            (snd (open_put_data (Str ''build/js/index.js'') failing_world))))"
    using f1_1 by (simp add: prod_eq_iff)
  note g1 = T [THEN conjunct1, rule_format, OF h1_0 h1_1]
  have e1: "fst (put demo_wrapper (Str ''build/js/index.js'') failing_world) =
        Inl (ClientError ''AccessDenied'')"
    "logs (snd (put demo_wrapper (Str ''build/js/index.js'') failing_world)) =
        [LogException ''Couldn't put object '%s' to bucket '%s'.''
           [S ''js/index.js'', S ''evaluationroom.com''] (ClientError ''AccessDenied'')]"
    "calls (snd (put demo_wrapper (Str ''build/js/index.js'') failing_world)) =
        [ObjectPut ''evaluationroom.com'' ''js/index.js'' [0x76, 0x61, 0x72] ''public-read'']"
    unfolding g1 by (simp_all add: eval_defs)
  have f2_0: "fst (open_put_data (Bytes [0x68, 0x69]) poll_failing_world) =
        Inr (RawBytes [0x68, 0x69])"
    by (simp add: eval_defs)
  have h2_0: "open_put_data (Bytes [0x68, 0x69]) poll_failing_world =
      (Inr (RawBytes [0x68, 0x69]),
       snd (open_put_data (Bytes [0x68, 0x69]) poll_failing_world))"
    using f2_0 by (simp add: prod_eq_iff)
  have f2_1: "fst (object_put (object demo_wrapper) (RawBytes [0x68, 0x69]) ''public-read''
          (snd (open_put_data (Bytes [0x68, 0x69]) poll_failing_world))) =
        Inr ()"
    by (simp add: eval_defs)
  have h2_1: "object_put (object demo_wrapper) (RawBytes [0x68, 0x69]) ''public-read''
        (snd (open_put_data (Bytes [0x68, 0x69]) poll_failing_world)) =
      (Inr (),
       snd (object_put (object demo_wrapper) (RawBytes [0x68, 0x69]) ''public-read''
            (snd (open_put_data (Bytes [0x68, 0x69]) poll_failing_world))))"
    using f2_1 by (simp add: prod_eq_iff)
  have f2_2: "fst (object_wait_until_exists (object demo_wrapper)
          (snd (object_put (object demo_wrapper) (RawBytes [0x68, 0x69]) ''public-read''
            (snd (open_put_data (Bytes [0x68, 0x69]) poll_failing_world))))) =
        Inl (WaiterError ''ObjectExists'')"
    by (simp add: eval_defs)
  have h2_2: "object_wait_until_exists (object demo_wrapper)
        (snd (object_put (object demo_wrapper) (RawBytes [0x68, 0x69]) ''public-read''
          (snd (open_put_data (Bytes [0x68, 0x69]) poll_failing_world)))) =
      (Inl (WaiterError ''ObjectExists''),
       snd (object_wait_until_exists (object demo_wrapper)
            (snd (object_put (object demo_wrapper) (RawBytes [0x68, 0x69]) ''public-read''
              (snd (open_put_data (Bytes [0x68, 0x69]) poll_failing_world))))))"
    using f2_2 by (simp add: prod_eq_iff)
  note g2 = T [THEN conjunct2, THEN conjunct1, rule_format, OF h2_0 h2_1 h2_2]
  have e2: "fst (put demo_wrapper (Bytes [0x68, 0x69]) poll_failing_world) =
        Inl (WaiterError ''ObjectExists'')"
    "logs (snd (put demo_wrapper (Bytes [0x68, 0x69]) poll_failing_world)) =
        []"
    "calls (snd (put demo_wrapper (Bytes [0x68, 0x69]) poll_failing_world)) =
        [ObjectPut ''evaluationroom.com'' ''js/index.js'' [0x68, 0x69] ''public-read'',
         WaitUntilExists ''evaluationroom.com'' ''js/index.js'']"
    unfolding g2 by (simp_all add: eval_defs)
  have f3_0: "fst (object_get (object demo_wrapper) failing_world) =
        Inl (ClientError ''AccessDenied'')"
    by (simp add: eval_defs)
  have h3_0: "object_get (object demo_wrapper) failing_world =
      (Inl (ClientError ''AccessDenied''),
       snd (object_get (object demo_wrapper) failing_world))"
    using f3_0 by (simp add: prod_eq_iff)
  note g3 = T [THEN conjunct2, THEN conjunct2, THEN conjunct1, rule_format, OF h3_0]
  have e3: "fst (get demo_wrapper failing_world) =
        Inl (ClientError ''AccessDenied'')"
    "logs (snd (get demo_wrapper failing_world)) =
        [LogException ''Couldn't get object '%s' from bucket '%s'.''
           [S ''js/index.js'', S ''evaluationroom.com''] (ClientError ''AccessDenied'')]"
    "calls (snd (get demo_wrapper failing_world)) =
        [ObjectGet ''evaluationroom.com'' ''js/index.js'']"
    unfolding g3 by (simp_all add: eval_defs)
  have f4_0: "fst (objects_all fixture_bucket failing_world) =
        Inl (ClientError ''AccessDenied'')"
    by (simp add: eval_defs)
  have h4_0: "objects_all fixture_bucket failing_world =
      (Inl (ClientError ''AccessDenied''),
       snd (objects_all fixture_bucket failing_world))"
    using f4_0 by (simp add: prod_eq_iff)
  note g4 = T [THEN conjunct2, THEN conjunct2, THEN conjunct2, THEN conjunct1, rule_format, OF h4_0]
  have e4: "fst (list fixture_bucket None failing_world) =
        Inl (ClientError ''AccessDenied'')"
    "logs (snd (list fixture_bucket None failing_world)) =
        [LogException ''Couldn't get objects for bucket '%s'.''
           [S ''fixture''] (ClientError ''AccessDenied'')]"
    "calls (snd (list fixture_bucket None failing_world)) =
        [ObjectsAll ''fixture'']"
    unfolding g4 by (simp_all add: eval_defs)
  have f5_0: "fst (objects_filter fixture_bucket ''js/'' failing_world) =
        Inl (ClientError ''AccessDenied'')"
    by (simp add: eval_defs)
  have h5_0: "objects_filter fixture_bucket ''js/'' failing_world =
      (Inl (ClientError ''AccessDenied''),
       snd (objects_filter fixture_bucket ''js/'' failing_world))"
    using f5_0 by (simp add: prod_eq_iff)
  have s5: "''js/'' \<noteq> []"
    by simp
  note g5 = T [THEN conjunct2, THEN conjunct2, THEN conjunct2, THEN conjunct2, THEN conjunct1, rule_format, OF s5 h5_0]
  have e5: "fst (list fixture_bucket (Some ''js/'') failing_world) =
        Inl (ClientError ''AccessDenied'')"
    "logs (snd (list fixture_bucket (Some ''js/'') failing_world)) =
        [LogException ''Couldn't get objects for bucket '%s'.''
           [S ''fixture''] (ClientError ''AccessDenied'')]"
    "calls (snd (list fixture_bucket (Some ''js/'') failing_world)) =
        [ObjectsFilter ''fixture'' ''js/'']"
    unfolding g5 by (simp_all add: eval_defs)
  have f6_0: "fst (object_copy_from demo_dest (bucket_name (object demo_wrapper)) (key (object demo_wrapper)) failing_world) =
        Inl (ClientError ''AccessDenied'')"
    by (simp add: eval_defs)
  have h6_0: "object_copy_from demo_dest (bucket_name (object demo_wrapper)) (key (object demo_wrapper)) failing_world =
      (Inl (ClientError ''AccessDenied''),
       snd (object_copy_from demo_dest (bucket_name (object demo_wrapper)) (key (object demo_wrapper)) failing_world))"
    using f6_0 by (simp add: prod_eq_iff)
  note g6 = T [THEN conjunct2, THEN conjunct2, THEN conjunct2, THEN conjunct2, THEN conjunct2, THEN conjunct1, rule_format, OF h6_0]
  have e6: "fst (copy demo_wrapper demo_dest failing_world) =
        Inl (ClientError ''AccessDenied'')"
    "logs (snd (copy demo_wrapper demo_dest failing_world)) =
        [LogException ''Couldn't copy object from %s/%s to %s/%s.''
           [S ''js/index.js'', S ''evaluationroom.com'', S ''backup'', S ''index.js''] (ClientError ''AccessDenied'')]"
    "calls (snd (copy demo_wrapper demo_dest failing_world)) =
        [CopyFrom ''backup'' ''index.js'' ''evaluationroom.com'' ''js/index.js'']"
    unfolding g6 by (simp_all add: eval_defs)
  have f7_0: "fst (object_copy_from demo_dest (bucket_name (object demo_wrapper)) (key (object demo_wrapper)) poll_failing_world) =
        Inr ()"
    by (simp add: eval_defs)
  have h7_0: "object_copy_from demo_dest (bucket_name (object demo_wrapper)) (key (object demo_wrapper)) poll_failing_world =
      (Inr (),
       snd (object_copy_from demo_dest (bucket_name (object demo_wrapper)) (key (object demo_wrapper)) poll_failing_world))"
    using f7_0 by (simp add: prod_eq_iff)
  have f7_1: "fst (object_wait_until_exists demo_dest
          (snd (object_copy_from demo_dest (bucket_name (object demo_wrapper)) (key (object demo_wrapper)) poll_failing_world))) =
        Inl (WaiterError ''ObjectExists'')"
    by (simp add: eval_defs)
  have h7_1: "object_wait_until_exists demo_dest
        (snd (object_copy_from demo_dest (bucket_name (object demo_wrapper)) (key (object demo_wrapper)) poll_failing_world)) =
      (Inl (WaiterError ''ObjectExists''),
       snd (object_wait_until_exists demo_dest
            (snd (object_copy_from demo_dest (bucket_name (object demo_wrapper)) (key (object demo_wrapper)) poll_failing_world))))"
    using f7_1 by (simp add: prod_eq_iff)
  note g7 = T [THEN conjunct2, THEN conjunct2, THEN conjunct2, THEN conjunct2, THEN conjunct2, THEN conjunct2, THEN conjunct1, rule_format, OF h7_0 h7_1]
  have e7: "fst (copy demo_wrapper demo_dest poll_failing_world) =
        Inl (WaiterError ''ObjectExists'')"
    "logs (snd (copy demo_wrapper demo_dest poll_failing_world)) =
        []"
    "calls (snd (copy demo_wrapper demo_dest poll_failing_world)) =
        [CopyFrom ''backup'' ''index.js'' ''evaluationroom.com'' ''js/index.js'',
         WaitUntilExists ''backup'' ''index.js'']"
    unfolding g7 by (simp_all add: eval_defs)
  have f8_0: "fst (acl_load (object demo_wrapper) failing_world) =
        Inl (ClientError ''AccessDenied'')"
    by (simp add: eval_defs)
  have h8_0: "acl_load (object demo_wrapper) failing_world =
      (Inl (ClientError ''AccessDenied''),
       snd (acl_load (object demo_wrapper) failing_world))"
    using f8_0 by (simp add: prod_eq_iff)
  note g8 = T [THEN conjunct2, THEN conjunct2, THEN conjunct2, THEN conjunct2, THEN conjunct2, THEN conjunct2, THEN conjunct2, THEN conjunct1, rule_format, OF h8_0]
  have e8: "fst (put_acl demo_wrapper ''fcernaf@gmail.com'' failing_world) =
        Inl (ClientError ''AccessDenied'')"
    "logs (snd (put_acl demo_wrapper ''fcernaf@gmail.com'' failing_world)) =
        [LogException ''Couldn't add ACL to object '%s'.''
           [S ''js/index.js''] (ClientError ''AccessDenied'')]"
    "calls (snd (put_acl demo_wrapper ''fcernaf@gmail.com'' failing_world)) =
        [AclLoad ''evaluationroom.com'' ''js/index.js'']"
    unfolding g8 by (simp_all add: eval_defs)
  have f9_0: "fst (acl_load (object demo_wrapper) failing_later_world) =
        Inr (canned_acl ''public-read'' (account empty_world))"
    by (simp add: eval_defs)
  have h9_0: "acl_load (object demo_wrapper) failing_later_world =
      (Inr (canned_acl ''public-read'' (account empty_world)),
       snd (acl_load (object demo_wrapper) failing_later_world))"
    using f9_0 by (simp add: prod_eq_iff)
  have f9_1: "fst (acl_put (object demo_wrapper) (grants_or_empty (Grants (canned_acl ''public-read'' (account empty_world))) @ [email_grant ''fcernaf@gmail.com'']) (Owner (canned_acl ''public-read'' (account empty_world)))
          (snd (acl_load (object demo_wrapper) failing_later_world))) =
        Inl (ClientError ''AccessDenied'')"
    by (simp add: eval_defs)
  have h9_1: "acl_put (object demo_wrapper) (grants_or_empty (Grants (canned_acl ''public-read'' (account empty_world))) @ [email_grant ''fcernaf@gmail.com'']) (Owner (canned_acl ''public-read'' (account empty_world)))
        (snd (acl_load (object demo_wrapper) failing_later_world)) =
      (Inl (ClientError ''AccessDenied''),
       snd (acl_put (object demo_wrapper) (grants_or_empty (Grants (canned_acl ''public-read'' (account empty_world))) @ [email_grant ''fcernaf@gmail.com'']) (Owner (canned_acl ''public-read'' (account empty_world)))
            (snd (acl_load (object demo_wrapper) failing_later_world))))"
    using f9_1 by (simp add: prod_eq_iff)
  note g9 = T [THEN conjunct2, THEN conjunct2, THEN conjunct2, THEN conjunct2, THEN conjunct2, THEN conjunct2, THEN conjunct2, THEN conjunct2, THEN conjunct1, rule_format, OF h9_0 h9_1]
  have e9: "fst (put_acl demo_wrapper ''fcernaf@gmail.com'' failing_later_world) =
        Inl (ClientError ''AccessDenied'')"
    "logs (snd (put_acl demo_wrapper ''fcernaf@gmail.com'' failing_later_world)) =
        [LogException ''Couldn't add ACL to object '%s'.''
           [S ''js/index.js''] (ClientError ''AccessDenied'')]"
    "calls (snd (put_acl demo_wrapper ''fcernaf@gmail.com'' failing_later_world)) =
        [AclLoad ''evaluationroom.com'' ''js/index.js'',
         AclPut ''evaluationroom.com'' ''js/index.js''
           [owner_grant (account empty_world), all_users_read,
            email_grant ''fcernaf@gmail.com''] (account empty_world)]"
    unfolding g9 by (simp_all add: eval_defs)
  have f10_0: "fst (acl_load (object demo_wrapper) failing_world) =
        Inl (ClientError ''AccessDenied'')"
    by (simp add: eval_defs)
  have h10_0: "acl_load (object demo_wrapper) failing_world =
      (Inl (ClientError ''AccessDenied''),
       snd (acl_load (object demo_wrapper) failing_world))"
    using f10_0 by (simp add: prod_eq_iff)
  note g10 = T [THEN conjunct2, THEN conjunct2, THEN conjunct2, THEN conjunct2, THEN conjunct2, THEN conjunct2, THEN conjunct2, THEN conjunct2, THEN conjunct2, THEN conjunct1, rule_format, OF h10_0]
  have e10: "fst (get_acl demo_wrapper failing_world) =
        Inl (ClientError ''AccessDenied'')"
    "logs (snd (get_acl demo_wrapper failing_world)) =
        [LogException ''Couldn't get ACL for object %s.''
           [S ''js/index.js''] (ClientError ''AccessDenied'')]"
    "calls (snd (get_acl demo_wrapper failing_world)) =
        [AclLoad ''evaluationroom.com'' ''js/index.js'']"
    unfolding g10 by (simp_all add: eval_defs)
  from f1_0 f1_1 e1 f2_0 f2_1 f2_2 e2 f3_0 e3 f4_0 e4 f5_0 e5 f6_0 e6 f7_0 f7_1 e7 f8_0 e8 f9_0 f9_1 e9 f10_0 e10
  show ?thesis by simp
qed

end
